theory Spec2Isabelle
  imports Complex_Main
begin

section \<open>Data model\<close>

text \<open>
  The two notebooks (the quasi-steady "numerical" model and the hysteresis model) share
  their data handling.  Python floats are modelled by \<^typ>\<open>real\<close>; a fractional power
  \<^verbatim>\<open>x**(a/b)\<close> is \<^term>\<open>x powr (a/b)\<close>.  This is the meaning of the float operations for
  \<^prop>\<open>0 \<le> x\<close> only: for a negative base or a negative argument of the square root the
  floats give NaN, where \<open>powr\<close> and \<open>sqrt\<close> are total, so the value of a formula of the
  model at a negative height says nothing about the code.  The claims below use the
  formulas at non-negative heights only.
\<close>

datatype variant = Numerical | Hysteresis

text \<open>
  The module-level tuples \<^verbatim>\<open>l, S, w, h_l, h_u, k, hcrit\<close>, the arrays \<^verbatim>\<open>Adj\<close>,
  \<^verbatim>\<open>cst_lambda\<close> and \<^verbatim>\<open>rainvals\<close> and the segment count \<^verbatim>\<open>N\<close>, read by every function
  of the notebooks.  The array \<^verbatim>\<open>cst_lambda\<close> exists in the numerical notebook only
  (\<^verbatim>\<open>cst_lambda = lambda_val*np.ones(N)\<close>); the hysteresis notebook assigns
  \<^verbatim>\<open>cat_lambda = 10 * np.ones(N)\<close> and never assigns \<^verbatim>\<open>cst_lambda\<close>.  The tuple \<^verbatim>\<open>hcrit\<close> is
  filled by the root search of the section on critical heights.
\<close>

record env =
  N :: nat
  Adj :: "real list list"
  l :: "real list"
  S :: "real list"
  w :: "real list"
  h_l :: "real list"
  h_u :: "real list"
  k :: "real list"
  cst_lambda :: "real list"
  hcrit :: "real list"
  rainvals :: "real list list"

subsection \<open>Nondimensionalising constants\<close>

definition manning :: "variant \<Rightarrow> real" where
  "manning v = (case v of Numerical \<Rightarrow> 0.03 | Hysteresis \<Rightarrow> 0.035)"

definition cst_w :: real where "cst_w = 2"
definition cst_h :: real where "cst_h = 1"
definition cst_S :: real where "cst_S = 0.05"
definition cst_g :: real where "cst_g = 9.8"
definition cst_l :: real where "cst_l = 100"

definition cst_Q :: "variant \<Rightarrow> real" where
  "cst_Q v = cst_w * cst_h powr (5/3) * cst_S powr (1/2) / manning v"

definition cst_t :: "variant \<Rightarrow> real" where
  "cst_t v = cst_l * cst_w * cst_h / cst_Q v"

definition cst_gamma :: "variant \<Rightarrow> real" where
  "cst_gamma v = sqrt (2 * cst_g) * cst_h powr (3/2) * cst_w / cst_Q v"

definition cst_beta :: real where
  "cst_beta = cst_h / (cst_S * cst_l)"

section \<open>Segment relations\<close>

definition Qfric :: "env \<Rightarrow> real \<Rightarrow> nat \<Rightarrow> real" where
  "Qfric e h i = w e ! i * h powr (5/3) * sqrt (S e ! i)"

text \<open>
  \<^verbatim>\<open>Qdam\<close> of both notebooks, with the weir coefficient \<^verbatim>\<open>0.6*2/3\<close>; this is the
  function the dispatcher \<^verbatim>\<open>Qfun\<close> calls.
\<close>

definition Qdam :: "variant \<Rightarrow> env \<Rightarrow> real \<Rightarrow> nat \<Rightarrow> real" where
  "Qdam v e h i =
     (let a1 = h_l e ! i * h / sqrt (h + h_l e ! i);
          a2 = k e ! i * sqrt h * min (h - h_l e ! i) (h_u e ! i - h_l e ! i);
          a3 = 0.6 * 2 / 3 * (max 0 (h - h_u e ! i)) powr (3/2)
      in cst_gamma v * w e ! i * (a1 + a2 + a3))"

text \<open>
  \<^verbatim>\<open>Qfric1\<close> and \<^verbatim>\<open>Qdam1\<close> of the hysteresis notebook, used only inside the root
  function that locates \<^verbatim>\<open>hcrit\<close>.  The weir term of \<^verbatim>\<open>Qdam1\<close> is
  \<^verbatim>\<open>2/3 * max(0, h-h_u[i])**(3/2)\<close>.
\<close>

definition Qfric1 :: "env \<Rightarrow> real \<Rightarrow> nat \<Rightarrow> real" where
  "Qfric1 e h i = w e ! i * h powr (5/3) * sqrt (S e ! i)"

definition Qdam1 :: "env \<Rightarrow> real \<Rightarrow> nat \<Rightarrow> real" where
  "Qdam1 e h i =
     (let a1 = h_l e ! i * h / sqrt (h + h_l e ! i);
          a2 = k e ! i * sqrt h * min (h - h_l e ! i) (h_u e ! i - h_l e ! i);
          a3 = 2 / 3 * (max 0 (h - h_u e ! i)) powr (3/2)
      in cst_gamma Hysteresis * w e ! i * (a1 + a2 + a3))"

definition Qfun :: "variant \<Rightarrow> env \<Rightarrow> real \<Rightarrow> nat \<Rightarrow> real" where
  "Qfun v e h i =
     (if h < max (hcrit e ! i) (h_l e ! i) then Qfric e h i else Qdam v e h i)"

text \<open>
  \<^verbatim>\<open>Vfun\<close> of the numerical notebook.  (The hysteresis notebook has a function of the same
  text, which cannot be called; see the section on the right-hand sides.)
\<close>

definition Vfun :: "env \<Rightarrow> real \<Rightarrow> nat \<Rightarrow> real" where
  "Vfun e h i =
     (let hstr = (Qfun Numerical e h i / w e ! i / sqrt (S e ! i)) powr (3/5)
      in if h < hstr + S e ! i * l e ! i / cst_beta
         then w e ! i * l e ! i * hstr
              + cst_lambda e ! i * 0.5 * cst_beta * w e ! i * (max 0 (h - hstr))\<^sup>2 / S e ! i
         else w e ! i * l e ! i
              * (h - S e ! i * l e ! i / cst_beta
                 + cst_lambda e ! i / 2 * S e ! i * l e ! i / cst_beta))"

section \<open>Lookup tables\<close>

text \<open>\<^verbatim>\<open>np.linspace(a, b, n)\<close>: \<open>n\<close> equally spaced samples from \<open>a\<close> to \<open>b\<close>.\<close>

definition linspace :: "real \<Rightarrow> real \<Rightarrow> nat \<Rightarrow> real list" where
  "linspace a b n = map (\<lambda>j. a + real j * ((b - a) / real (n - 1))) [0..<n]"

text \<open>
  The inner loop that fills a row of \<^verbatim>\<open>Vapprox\<close>:
  \<^verbatim>\<open>runmax = max(runmax, Vfun(h, i)); Vapprox[i, j] = runmax\<close>.  The tables \<^verbatim>\<open>Vapprox\<close>
  and \<^verbatim>\<open>Qapprox\<close> are built in the numerical notebook only.
\<close>

fun runmax_row :: "real \<Rightarrow> real list \<Rightarrow> real list" where
  "runmax_row runmax [] = []"
| "runmax_row runmax (v # vs) = max runmax v # runmax_row (max runmax v) vs"

definition Vapprox :: "env \<Rightarrow> nat \<Rightarrow> real list" where
  "Vapprox e i = runmax_row 0 (map (\<lambda>h. Vfun e h i) (linspace 0 20 100))"

definition Qapprox :: "env \<Rightarrow> nat \<Rightarrow> real list" where
  "Qapprox e i = map (\<lambda>h. Qfun Numerical e h i) (linspace 0 20 100)"

text \<open>
  \<^verbatim>\<open>np.interp(x, xp, fp)\<close> is library code.  It is modelled after numpy's documented
  behaviour for a non-decreasing \<open>xp\<close>: the optional \<^verbatim>\<open>left\<close> and \<^verbatim>\<open>right\<close> values
  default to \<^verbatim>\<open>fp[0]\<close> and \<^verbatim>\<open>fp[-1]\<close>; inside the table the index \<open>j\<close> with
  \<open>xp[j] \<le> x < xp[j+1]\<close> is located (numpy's scan
  \<^verbatim>\<open>for (i = 1; i < len && key >= arr[i]; ++i); return i - 1\<close>, which the bisection used
  for long arrays agrees with on sorted data) and the chord through the two neighbouring
  samples is evaluated.  Both tables of the notebooks hold 100 samples, so numpy's errors
  for empty or unequal-length tables cannot arise.
\<close>

definition np_search :: "real \<Rightarrow> real list \<Rightarrow> nat" where
  "np_search key arr = length (takeWhile (\<lambda>a. a \<le> key) (tl arr))"

definition np_interp :: "real \<Rightarrow> real list \<Rightarrow> real list \<Rightarrow> real option \<Rightarrow> real option \<Rightarrow> real" where
  "np_interp x xp fp left right =
     (let lval = (case left of None \<Rightarrow> hd fp | Some a \<Rightarrow> a);
          rval = (case right of None \<Rightarrow> last fp | Some a \<Rightarrow> a)
      in if x > last xp then rval
         else if x < hd xp then lval
         else let j = np_search x xp
              in if j = length xp - 1 then fp ! j
                 else if xp ! j = x then fp ! j
                 else (fp ! (j + 1) - fp ! j) / (xp ! (j + 1) - xp ! j) * (x - xp ! j) + fp ! j)"

text \<open>\<^verbatim>\<open>Qvals(V)\<close> of the numerical notebook (no \<^verbatim>\<open>left\<close>/\<^verbatim>\<open>right\<close> is passed).\<close>

definition Qvals :: "env \<Rightarrow> real list \<Rightarrow> real list" where
  "Qvals e V =
     map (\<lambda>i. np_interp (V ! i) (Vapprox e i) (Qapprox e i) None None)
       [0..<N e]"

section \<open>Post-processing\<close>

text \<open>
  The lambda applied to every entry of \<^verbatim>\<open>dam_df\<close>:
  \<^verbatim>\<open>(x>df.h_l[dam]) * min(1, (x-df.h_l[dam])/(df.h_u[dam]-df.h_l[dam]))\<close>;
  the Boolean factor is 1 or 0.
\<close>

definition dam_fill :: "env \<Rightarrow> nat \<Rightarrow> real \<Rightarrow> real" where
  "dam_fill e dam x =
     (if x > h_l e ! dam then 1 else 0)
     * min 1 ((x - h_l e ! dam) / (h_u e ! dam - h_l e ! dam))"

section \<open>Critical heights\<close>

text \<open>
  \<^verbatim>\<open>scipy.optimize.root\<close> is library code and enters as a parameter: a function from the
  residual and the seed to the fields of the returned \<^verbatim>\<open>OptimizeResult\<close> that matter
  here, the first component of \<^verbatim>\<open>x\<close> and the flag \<^verbatim>\<open>success\<close>.
\<close>

record root_result =
  root_x :: real
  root_success :: bool

type_synonym root_solver = "(real \<Rightarrow> real) \<Rightarrow> real \<Rightarrow> root_result"

text \<open>
  The residual \<^verbatim>\<open>fun(z)\<close> defined inside the loop over segments: the numerical notebook
  subtracts \<^verbatim>\<open>Qdam\<close> from \<^verbatim>\<open>Qfric\<close>, the hysteresis notebook \<^verbatim>\<open>Qdam1\<close> from
  \<^verbatim>\<open>Qfric1\<close>.
\<close>

definition root_fun :: "variant \<Rightarrow> env \<Rightarrow> nat \<Rightarrow> real \<Rightarrow> real" where
  "root_fun v e i z =
     (case v of
        Numerical \<Rightarrow> Qfric e z i - Qdam Numerical e z i
      | Hysteresis \<Rightarrow> Qfric1 e z i - Qdam1 e z i)"

datatype build_error = RootSolveFailure nat

text \<open>
  The loop \<^verbatim>\<open>hcrit.append(root(fun, h_u[i]).x[0])\<close>.  The result's \<^verbatim>\<open>success\<close> flag is
  never read and no statement of the loop raises, so the construction has no failing
  branch; the result type only makes room for one.
\<close>

definition find_hcrit :: "root_solver \<Rightarrow> variant \<Rightarrow> env \<Rightarrow> build_error + real list" where
  "find_hcrit scipy_root v e =
     Inr (map (\<lambda>i. root_x (scipy_root (root_fun v e i) (h_u e ! i))) [0..<N e])"

section \<open>Rainfall forcing\<close>

text \<open>Python's float \<^verbatim>\<open>%\<close> for a positive modulus, and \<^verbatim>\<open>int()\<close> (truncation).\<close>

definition py_mod :: "real \<Rightarrow> real \<Rightarrow> real" where
  "py_mod a b = a - b * of_int \<lfloor>a / b\<rfloor>"

definition py_int :: "real \<Rightarrow> int" where
  "py_int r = (if 0 \<le> r then \<lfloor>r\<rfloor> else \<lceil>r\<rceil>)"

text \<open>
  \<^verbatim>\<open>rainfun(t)\<close>.  A negative row index counts from the end; the compiled function does
  not check the index, so a row outside the table is left unspecified.
\<close>

definition rainfun :: "env \<Rightarrow> real \<Rightarrow> real list" where
  "rainfun e t =
     (let minutes = t / 60;
          i = py_int ((minutes - py_mod minutes 15) / 15)
      in if i < 0 then rainvals e ! nat (int (length (rainvals e)) + i)
         else rainvals e ! nat i)"

section \<open>Network operator\<close>

text \<open>
  The adjacency matrix: \<^verbatim>\<open>Adj[i,j] = 1\<close> when \<^verbatim>\<open>TONODE[i] == FROMNODE[j]\<close>, else 0.
  A row of \<open>terrain\<close> is the pair \<open>(FROMNODE, TONODE)\<close> of a segment.
\<close>

definition build_Adj :: "(nat \<times> nat) list \<Rightarrow> real list list" where
  "build_Adj terrain =
     map (\<lambda>i. map (\<lambda>j. if snd (terrain ! i) = fst (terrain ! j) then 1 else 0)
                 [0..<length terrain])
       [0..<length terrain]"

text \<open>\<^verbatim>\<open>Adj.T.dot(Q)\<close>: component \<open>j\<close> is the sum over \<open>i\<close> of \<open>Adj[i,j] * Q[i]\<close>.\<close>

definition AdjT_dot :: "env \<Rightarrow> real list \<Rightarrow> real list" where
  "AdjT_dot e Q = map (\<lambda>j. \<Sum>i\<leftarrow>[0..<N e]. Adj e ! i ! j * Q ! i) [0..<N e]"

text \<open>The expression \<^verbatim>\<open>Adj.T.dot(Q) - Q + q\<close> of both right-hand sides, flattened.\<close>

definition net_balance :: "env \<Rightarrow> real list \<Rightarrow> real list \<Rightarrow> real list" where
  "net_balance e Q q = map (\<lambda>j. AdjT_dot e Q ! j - Q ! j + q ! j) [0..<N e]"

section \<open>Right-hand sides\<close>

text \<open>The inflow vector \<^verbatim>\<open>q[:,0] = rainfun(t*cst_t)/cst_Q\<close>.\<close>

definition inflow :: "variant \<Rightarrow> env \<Rightarrow> real \<Rightarrow> real list" where
  "inflow v e t = map (\<lambda>r. r / cst_Q v) (rainfun e (t * cst_t v))"

text \<open>\<^verbatim>\<open>derivative(t, V)\<close> of the numerical notebook.\<close>

definition derivative :: "env \<Rightarrow> real \<Rightarrow> real list \<Rightarrow> real list" where
  "derivative e t V =
     (let q = inflow Numerical e t;
          Q = Qvals e V
      in net_balance e Q q)"

subsection \<open>The hysteresis notebook\<close>

datatype py_error = NameError string

text \<open>
  \<^verbatim>\<open>Vfun\<close>, \<^verbatim>\<open>fun\<close> and \<^verbatim>\<open>derivative\<close> of the hysteresis notebook are compiled by numba
  (\<^verbatim>\<open>@jit(nopython=True)\<close>) when \<^verbatim>\<open>derivative\<close> is first called, each together with the
  compiled functions it calls.  \<^verbatim>\<open>Vfun\<close> reads the module-level name \<^verbatim>\<open>cst_lambda\<close>, which no
  cell of that notebook assigns (only \<^verbatim>\<open>cat_lambda\<close> is), so its compilation fails with a
  \<^verbatim>\<open>NameError\<close>.  The outcome of the compilation is that error or the compiled function.
\<close>

definition jit_Vfun :: "py_error + (env \<Rightarrow> real \<Rightarrow> nat \<Rightarrow> real)" where
  "jit_Vfun = Inl (NameError ''cst_lambda'')"

text \<open>
  \<^verbatim>\<open>fun(h, V, q)\<close> and \<^verbatim>\<open>derivative(t, X)\<close> of the hysteresis notebook; the name \<open>fun\<close> is
  taken in Isabelle.  The failed compilation of \<^verbatim>\<open>Vfun\<close> makes every call raise before a
  statement of the body runs.  The other branch records the body (with the floats read
  as reals, their meaning for non-negative heights); it is never taken.
\<close>

definition fun_hyst :: "env \<Rightarrow> real list \<Rightarrow> real list \<Rightarrow> real list \<Rightarrow> py_error + real list" where
  "fun_hyst e h V q =
     (case jit_Vfun of
        Inl err \<Rightarrow> Inl err
      | Inr Vfun_compiled \<Rightarrow>
          Inr (let Q = map (\<lambda>i. Qfun Hysteresis e (h ! i) i) [0..<N e];
                   D1 = map (\<lambda>i. 10 * (V ! i - Vfun_compiled e (h ! i) i)) [0..<N e];
                   D2 = net_balance e Q q
               in D1 @ D2))"

definition derivative_hyst :: "env \<Rightarrow> real \<Rightarrow> real list \<Rightarrow> py_error + real list" where
  "derivative_hyst e t X =
     (let h = take (N e) X;
          V = drop (N e) X;
          q = inflow Hysteresis e t
      in fun_hyst e h V q)"

section \<open>Integrator driver\<close>

text \<open>
  \<^verbatim>\<open>scipy.integrate.solve_ivp\<close> is library code and enters as a parameter.  A call is
  recorded with the arguments the notebooks pass and scipy's defaults for the others
  (\<^verbatim>\<open>method='RK45'\<close>, \<^verbatim>\<open>rtol=1e-3\<close>, \<^verbatim>\<open>atol=1e-6\<close>, \<^verbatim>\<open>t_eval=None\<close>); the solver returns
  the columns of \<^verbatim>\<open>sol.y\<close>, one state per returned time, or raises.  The field
  \<open>ivp_meth\<close> holds the argument \<^verbatim>\<open>method\<close>.  A right-hand side may raise.
\<close>

datatype ivp_method = RK45 | RK23 | DOP853 | Radau | BDF | LSODA

text \<open>
  scipy documents \<^verbatim>\<open>RK45\<close>, \<^verbatim>\<open>RK23\<close> and \<^verbatim>\<open>DOP853\<close> as explicit Runge-Kutta methods for
  non-stiff problems, \<^verbatim>\<open>Radau\<close> and \<^verbatim>\<open>BDF\<close> as implicit methods for stiff problems and
  \<^verbatim>\<open>LSODA\<close> as switching automatically between a non-stiff and a stiff (BDF) method.
\<close>

fun stiff_method :: "ivp_method \<Rightarrow> bool" where
  "stiff_method Radau = True"
| "stiff_method BDF = True"
| "stiff_method LSODA = True"
| "stiff_method _ = False"

record ivp_call =
  rhs :: "real \<Rightarrow> real list \<Rightarrow> py_error + real list"
  t_span :: "real \<times> real"
  y0 :: "real list"
  t_eval :: "real list option"
  atol :: real
  rtol :: real
  ivp_meth :: ivp_method

type_synonym ivp_solver = "ivp_call \<Rightarrow> py_error + real list list"

text \<open>
  Before it integrates, \<^verbatim>\<open>solve_ivp\<close> constructs the method object, and the constructor of
  every scipy method evaluates the right-hand side at the initial point
  (\<^verbatim>\<open>self.f = self.fun(self.t, self.y)\<close> in the Runge-Kutta methods).  An exception raised
  there is not caught and reaches the caller.  The rest of the integration is the
  parameter.
\<close>

definition call_solve_ivp :: "ivp_solver \<Rightarrow> ivp_call \<Rightarrow> py_error + real list list" where
  "call_solve_ivp solve_ivp c =
     (case rhs c (fst (t_span c)) (y0 c) of
        Inl err \<Rightarrow> Inl err
      | Inr f0 \<Rightarrow> solve_ivp c)"

text \<open>
  \<^verbatim>\<open>derivative2\<close> of either notebook, and \<^verbatim>\<open>T = (end-start).total_seconds() / cst_t\<close>
  for the two days between \<^verbatim>\<open>start\<close> and \<^verbatim>\<open>end\<close>.
\<close>

definition rhs_full :: "variant \<Rightarrow> env \<Rightarrow> real \<Rightarrow> real list \<Rightarrow> py_error + real list" where
  "rhs_full v e =
     (case v of
        Numerical \<Rightarrow> (\<lambda>t V. Inr (derivative e t V))
      | Hysteresis \<Rightarrow> derivative_hyst e)"

definition derivative2 :: "variant \<Rightarrow> env \<Rightarrow> real \<Rightarrow> real list \<Rightarrow> py_error + real list" where
  "derivative2 v e t X = rhs_full v e 0 X"

definition T_end :: "variant \<Rightarrow> real" where
  "T_end v = 172800 / cst_t v"

definition eval_no :: nat where
  "eval_no = 100"

definition warmup_call :: "variant \<Rightarrow> env \<Rightarrow> ivp_call" where
  "warmup_call v e =
     (case v of
        Numerical \<Rightarrow>
          \<lparr>rhs = derivative2 Numerical e, t_span = (0, 60 * 60 / cst_t Numerical),
           y0 = replicate (N e) 0, t_eval = None,
           atol = 1 / 10^3, rtol = 1 / 10^3, ivp_meth = RK45\<rparr>
      | Hysteresis \<Rightarrow>
          \<lparr>rhs = derivative2 Hysteresis e, t_span = (0, 60 * 60 / cst_t Hysteresis),
           y0 = replicate (2 * N e) 0, t_eval = None,
           atol = 1 / 10^2, rtol = 1 / 10^2, ivp_meth = RK45\<rparr>)"

definition full_call :: "variant \<Rightarrow> env \<Rightarrow> real list \<Rightarrow> ivp_call" where
  "full_call v e initial =
     (case v of
        Numerical \<Rightarrow>
          \<lparr>rhs = rhs_full Numerical e, t_span = (0, T_end Numerical),
           y0 = initial, t_eval = Some (linspace 0 (T_end Numerical) 100),
           atol = 1 / 10^3, rtol = 1 / 10^3, ivp_meth = RK23\<rparr>
      | Hysteresis \<Rightarrow>
          \<lparr>rhs = rhs_full Hysteresis e, t_span = (0, T_end Hysteresis),
           y0 = initial, t_eval = Some (linspace 0 (T_end Hysteresis) eval_no),
           atol = 1 / 10^3, rtol = 1 / 10^3, ivp_meth = RK23\<rparr>)"

text \<open>
  The driver cell: the warm-up call, \<^verbatim>\<open>initial = sol.y[:,-1]\<close>, then the full run.
\<close>

definition run_model :: "ivp_solver \<Rightarrow> variant \<Rightarrow> env \<Rightarrow> py_error + real list list" where
  "run_model solve_ivp v e =
     (case call_solve_ivp solve_ivp (warmup_call v e) of
        Inl err \<Rightarrow> Inl err
      | Inr sol \<Rightarrow> call_solve_ivp solve_ivp (full_call v e (last sol)))"

section \<open>Example inputs\<close>

text \<open>
  A single undammed segment, with the inert dam parameters the notebooks give every
  segment without a dam (\<open>h_l = 100\<close>, \<open>h_u = 101\<close>, \<open>k = 0\<close>): dimensionless width 10,
  slope 4 and length 1.
\<close>

definition undammed_env :: env where
  "undammed_env =
     \<lparr>N = 1, Adj = [[0]], l = [1], S = [4], w = [10], h_l = [100], h_u = [101], k = [0],
      cst_lambda = [10], hcrit = [5], rainvals = [[0]]\<rparr>"

text \<open>
  A single dammed segment of the hysteresis model whose friction and dam curves (as the
  root function of that notebook computes them) cross at height 1, above the upper edge
  \<open>3/4\<close> of the dam.
\<close>

definition dammed_env :: env where
  "dammed_env =
     \<lparr>N = 1, Adj = [[0]], l = [1], S = [(cst_gamma Hysteresis * (173 / 240))\<^sup>2], w = [1],
      h_l = [9 / 16], h_u = [3 / 4], k = [1],
      cst_lambda = [10], hcrit = [1], rainvals = [[0]]\<rparr>"

text \<open>
  A single dammed segment of the numerical model: an impermeable dam between the heights
  \<open>1/4\<close> and \<open>2\<close>, slope \<open>12.7008\<close> (the square of \<open>6 * cst_gamma\<close>), and a critical height
  below the lower edge of the dam, near the crossing of the friction and dam curves.
\<close>

definition leaky_env :: env where
  "leaky_env =
     \<lparr>N = 1, Adj = [[0]], l = [1], S = [7938 / 625], w = [1], h_l = [1 / 4], h_u = [2], k = [0],
      cst_lambda = [10], hcrit = [9 / 400], rainvals = [[0]]\<rparr>"

text \<open>Two segments in a chain: segment 0 drains into segment 1, which is the outlet.\<close>

definition chain_env :: env where
  "chain_env =
     \<lparr>N = 2, Adj = build_Adj [(1, 2), (2, 3)], l = [1, 1], S = [4, 4], w = [1, 1],
      h_l = [100, 100], h_u = [101, 101], k = [0, 0],
      cst_lambda = [10, 10], hcrit = [5, 5], rainvals = [[0, 0]]\<rparr>"

text \<open>A root solver that stops at its seed and reports that it did not converge.\<close>

definition stalled_root :: root_solver where
  "stalled_root f x0 = \<lparr>root_x = x0, root_success = False\<rparr>"

section \<open>The storage table is monotone\<close>

lemma length_linspace [simp]: "length (linspace a b n) = n"
  by (simp add: linspace_def)

lemma linspace_nth: "j < n \<Longrightarrow> linspace a b n ! j = a + real j * ((b - a) / real (n - 1))"
  by (simp add: linspace_def)

lemma length_runmax_row [simp]: "length (runmax_row m vs) = length vs"
  by (induction vs arbitrary: m) simp_all

lemma runmax_row_ge: "x \<in> set (runmax_row m vs) \<Longrightarrow> m \<le> x"
proof (induction vs arbitrary: m)
  case Nil
  then show ?case by simp
next
  case (Cons v vs)
  from Cons.prems have "x = max m v \<or> x \<in> set (runmax_row (max m v) vs)" by simp
  then show ?case
  proof
    assume "x = max m v" then show ?thesis by simp
  next
    assume "x \<in> set (runmax_row (max m v) vs)"
    then have "max m v \<le> x" by (rule Cons.IH)
    then show ?thesis by simp
  qed
qed

lemma sorted_runmax_row: "sorted (runmax_row m vs)"
  by (induction vs arbitrary: m) (auto dest: runmax_row_ge)

lemma Max_insert_max:
  fixes m :: real
  assumes "finite A"
  shows "Max (insert (max m v) A) = Max (insert m (insert v A))"
proof (cases "A = {}")
  case True
  then show ?thesis by (simp add: max.commute)
next
  case False
  with assms show ?thesis by (simp add: max.assoc)
qed

lemma runmax_row_nth:
  "j < length vs \<Longrightarrow> runmax_row m vs ! j = Max (insert m (set (take (Suc j) vs)))"
proof (induction vs arbitrary: m j)
  case Nil
  then show ?case by simp
next
  case (Cons v vs)
  show ?case
  proof (cases j)
    case 0
    then show ?thesis by (simp add: max.commute)
  next
    case (Suc j')
    with Cons.prems have "j' < length vs" by simp
    then have "runmax_row (max m v) vs ! j' = Max (insert (max m v) (set (take (Suc j') vs)))"
      by (rule Cons.IH)
    also have "\<dots> = Max (insert m (insert v (set (take (Suc j') vs))))"
      by (rule Max_insert_max) simp
    finally show ?thesis using Suc by simp
  qed
qed

lemma length_Vapprox [simp]: "length (Vapprox e i) = 100"
  by (simp add: Vapprox_def)

lemma length_Qapprox [simp]: "length (Qapprox e i) = 100"
  by (simp add: Qapprox_def)

lemma sorted_Vapprox: "sorted (Vapprox e i)"
  by (simp add: Vapprox_def sorted_runmax_row)

text \<open>
  Claim C3.  For every segment \<open>i\<close> and grid indices \<open>j \<le> j'\<close> below 100 the tabulated
  storage satisfies \<open>Vapprox[i,j] \<le> Vapprox[i,j']\<close>, and the entry at \<open>j'\<close> is the running
  maximum: the largest of the start value 0 and the raw storage formula at the grid
  heights up to index \<open>j'\<close>.
\<close>

theorem Vapprox_nondecreasing:
  assumes "j \<le> j'" and "j' < 100"
  shows "Vapprox e i ! j \<le> Vapprox e i ! j'
       \<and> Vapprox e i ! j' =
           Max (insert 0 ((\<lambda>h. Vfun e h i) ` set (take (Suc j') (linspace 0 20 100))))"
proof
  show "Vapprox e i ! j \<le> Vapprox e i ! j'"
    using assms sorted_Vapprox [of e i] by (simp add: sorted_nth_mono)
  show "Vapprox e i ! j' =
           Max (insert 0 ((\<lambda>h. Vfun e h i) ` set (take (Suc j') (linspace 0 20 100))))"
    using assms by (simp add: Vapprox_def runmax_row_nth take_map)
qed

theorem Vapprox_nondecreasing_witness:
  "(3::nat) \<le> 7 \<and> (7::nat) < 100
   \<and> Vapprox undammed_env 0 ! 3 \<le> Vapprox undammed_env 0 ! 7"
  using Vapprox_nondecreasing [of 3 7 undammed_env 0] by simp

section \<open>Fill fraction\<close>

text \<open>
  Claim C9.  For a dammed segment with \<open>h_l < h_u\<close> the fill fraction computed from a
  state value \<open>x\<close> lies in \<open>[0, 1]\<close>; it is 0 when \<open>x \<le> h_l\<close> and otherwise equals
  \<open>min(1, (x - h_l) / (h_u - h_l))\<close>.
\<close>

theorem dam_fill_range:
  assumes "h_l e ! dam < h_u e ! dam"
  shows "0 \<le> dam_fill e dam x \<and> dam_fill e dam x \<le> 1
       \<and> (x \<le> h_l e ! dam \<longrightarrow> dam_fill e dam x = 0)
       \<and> (h_l e ! dam < x \<longrightarrow>
            dam_fill e dam x = min 1 ((x - h_l e ! dam) / (h_u e ! dam - h_l e ! dam)))"
  using assms by (auto simp: dam_fill_def min_def)

theorem dam_fill_range_witness:
  "h_l dammed_env ! 0 < h_u dammed_env ! 0
   \<and> 0 \<le> dam_fill dammed_env 0 (2 / 3) \<and> dam_fill dammed_env 0 (2 / 3) \<le> 1
   \<and> dam_fill dammed_env 0 (1 / 2) = 0
   \<and> dam_fill dammed_env 0 (2 / 3) = 5 / 9"
  using dam_fill_range [of dammed_env 0 "2 / 3"] dam_fill_range [of dammed_env 0 "1 / 2"]
  by (simp add: dammed_env_def)

section \<open>The friction regime on the grid\<close>

text \<open>
  Below the dispatcher's threshold \<open>max(hcrit, h_l)\<close> the discharge is the friction
  formula, the implied downstream height \<open>hstr\<close> is the height itself and the raw storage
  is \<open>w * l * h\<close>; the running maximum leaves those table entries as they are.
\<close>

lemma hd_Vapprox: "hd (Vapprox e i) = Vapprox e i ! 0"
  by (rule hd_conv_nth) (simp flip: length_greater_0_conv)

lemma last_Vapprox: "last (Vapprox e i) = Vapprox e i ! 99"
  by (subst last_conv_nth) (simp_all flip: length_greater_0_conv)

lemma hd_Qapprox: "hd (Qapprox e i) = Qapprox e i ! 0"
  by (rule hd_conv_nth) (simp flip: length_greater_0_conv)

lemma last_Qapprox: "last (Qapprox e i) = Qapprox e i ! 99"
  by (subst last_conv_nth) (simp_all flip: length_greater_0_conv)

lemma Vapprox_mono: "j \<le> j' \<Longrightarrow> j' < 100 \<Longrightarrow> Vapprox e i ! j \<le> Vapprox e i ! j'"
  using sorted_Vapprox [of e i] by (simp add: sorted_nth_mono)

lemma Vapprox_nonneg:
  assumes "j < 100"
  shows "0 \<le> Vapprox e i ! j"
proof -
  from assms have "Vapprox e i ! j \<in> set (Vapprox e i)" by simp
  then show ?thesis unfolding Vapprox_def by (rule runmax_row_ge)
qed

lemma cst_beta_pos: "0 < cst_beta"
  by (simp add: cst_beta_def cst_h_def cst_S_def cst_l_def)

lemma grid_nth: "j < 100 \<Longrightarrow> linspace 0 20 100 ! j = 20 * real j / 99"
  by (simp add: linspace_nth)

lemma grid_mono: "j \<le> j' \<Longrightarrow> j' < 100 \<Longrightarrow> linspace 0 20 100 ! j \<le> linspace 0 20 100 ! j'"
  by (simp add: grid_nth)

lemma grid_nonneg: "j < 100 \<Longrightarrow> 0 \<le> linspace 0 20 100 ! j"
  by (simp add: grid_nth)

lemma Qfun_friction:
  "h < max (hcrit e ! i) (h_l e ! i) \<Longrightarrow> Qfun v e h i = Qfric e h i"
  by (simp add: Qfun_def)

lemma hstr_friction:
  assumes "0 \<le> h" and "0 < w e ! i" and "0 < S e ! i"
  shows "(Qfric e h i / w e ! i / sqrt (S e ! i)) powr (3/5) = h"
proof -
  from assms have "Qfric e h i / w e ! i / sqrt (S e ! i) = h powr (5/3)"
    by (simp add: Qfric_def)
  moreover have "(h powr (5/3)) powr (3/5) = h"
    using assms(1) by (simp add: powr_powr)
  ultimately show ?thesis by simp
qed

lemma Vfun_friction:
  assumes "0 \<le> h" and "h < max (hcrit e ! i) (h_l e ! i)"
    and "0 < w e ! i" and "0 < S e ! i" and "0 < l e ! i"
  shows "Vfun e h i = w e ! i * l e ! i * h"
proof -
  have "Qfun Numerical e h i = Qfric e h i"
    using assms(2) by (rule Qfun_friction)
  moreover have "(Qfric e h i / w e ! i / sqrt (S e ! i)) powr (3/5) = h"
    using assms(1,3,4) by (rule hstr_friction)
  ultimately have hs: "(Qfun Numerical e h i / w e ! i / sqrt (S e ! i)) powr (3/5) = h"
    by (simp only:)
  have "0 < S e ! i * l e ! i / cst_beta"
    using assms cst_beta_pos by simp
  then have "h < h + S e ! i * l e ! i / cst_beta" by simp
  then show ?thesis
    unfolding Vfun_def Let_def hs by simp
qed

lemma Qfric_mono:
  assumes "0 \<le> a" and "a \<le> b" and "0 \<le> w e ! i" and "0 \<le> S e ! i"
  shows "Qfric e a i \<le> Qfric e b i"
proof -
  have "a powr (5/3) \<le> b powr (5/3)"
    using assms(1,2) by (intro powr_mono2) simp_all
  then show ?thesis
    unfolding Qfric_def using assms(3,4)
    by (intro mult_right_mono mult_left_mono) simp_all
qed

lemma Vapprox_friction:
  assumes m: "m < 100" and fr: "linspace 0 20 100 ! m < max (hcrit e ! i) (h_l e ! i)"
    and pos: "0 < w e ! i" "0 < S e ! i" "0 < l e ! i"
  shows "Vapprox e i ! m = w e ! i * l e ! i * (linspace 0 20 100 ! m)"
proof -
  let ?g = "linspace 0 20 100"
  let ?c = "w e ! i * l e ! i"
  have val: "Vfun e (?g ! m') i = ?c * (?g ! m')" if "m' \<le> m" for m'
  proof -
    from that m have "?g ! m' \<le> ?g ! m" by (rule grid_mono)
    with fr have "?g ! m' < max (hcrit e ! i) (h_l e ! i)" by simp
    moreover from that m have "0 \<le> ?g ! m'" by (simp add: grid_nonneg)
    ultimately show ?thesis using pos by (simp add: Vfun_friction)
  qed
  have "Vapprox e i ! m = Max (insert 0 (set (take (Suc m) (map (\<lambda>h. Vfun e h i) ?g))))"
    using m by (simp add: Vapprox_def runmax_row_nth)
  also have "\<dots> = ?c * (?g ! m)"
  proof (rule Max_eqI)
    show "finite (insert 0 (set (take (Suc m) (map (\<lambda>h. Vfun e h i) ?g))))" by simp
  next
    fix y assume "y \<in> insert 0 (set (take (Suc m) (map (\<lambda>h. Vfun e h i) ?g)))"
    then consider "y = 0" | "y \<in> set (take (Suc m) (map (\<lambda>h. Vfun e h i) ?g))" by auto
    then show "y \<le> ?c * (?g ! m)"
    proof cases
      case 1
      with pos m show ?thesis by (simp add: grid_nonneg)
    next
      case 2
      then obtain m' where m': "m' < Suc m" and y: "y = Vfun e (?g ! m') i"
        using m by (auto simp: in_set_conv_nth)
      from m' have le: "m' \<le> m" by simp
      from le m have "?g ! m' \<le> ?g ! m" by (rule grid_mono)
      with pos have "?c * (?g ! m') \<le> ?c * (?g ! m)" by simp
      with y val [OF le] show ?thesis by simp
    qed
  next
    have "Vfun e (?g ! m) i \<in> set (take (Suc m) (map (\<lambda>h. Vfun e h i) ?g))"
      using m by (auto simp: in_set_conv_nth intro!: exI [of _ m])
    then show "?c * (?g ! m) \<in> insert 0 (set (take (Suc m) (map (\<lambda>h. Vfun e h i) ?g)))"
      using val [of m] by simp
  qed
  finally show ?thesis .
qed

section \<open>Interpolation of discharge against storage\<close>

lemma Qvals_nth:
  "i < N e \<Longrightarrow>
   Qvals e V ! i = np_interp (V ! i) (Vapprox e i) (Qapprox e i) None None"
  by (simp add: Qvals_def)

lemma Qvals_below:
  assumes "i < N e" and "V ! i < Vapprox e i ! 0"
  shows "Qvals e V ! i = Qapprox e i ! 0"
proof -
  have "Vapprox e i ! 0 \<le> Vapprox e i ! 99"
    by (rule Vapprox_mono) simp_all
  with assms(2) have "\<not> V ! i > Vapprox e i ! 99" by simp
  with assms show ?thesis
    by (simp add: Qvals_nth np_interp_def hd_Vapprox last_Vapprox hd_Qapprox)
qed

lemma Qvals_above:
  assumes "i < N e" and "Vapprox e i ! 99 < V ! i"
  shows "Qvals e V ! i = Qapprox e i ! 99"
  using assms by (simp add: Qvals_nth np_interp_def last_Vapprox last_Qapprox)

text \<open>
  Claim C5.  For every segment \<open>i\<close> the volume-to-discharge lookup clamps: a volume below
  \<open>Vapprox[i,0]\<close> gives \<open>Qapprox[i,0]\<close> and a volume above \<open>Vapprox[i,-1]\<close> gives
  \<open>Qapprox[i,-1]\<close>; nothing is extrapolated linearly.
\<close>

theorem Qvals_clamps:
  assumes "i < N e"
  shows "(V ! i < Vapprox e i ! 0 \<longrightarrow> Qvals e V ! i = Qapprox e i ! 0)
       \<and> (Vapprox e i ! 99 < V ! i \<longrightarrow> Qvals e V ! i = Qapprox e i ! 99)"
  using assms by (simp add: Qvals_below Qvals_above)

theorem Qvals_clamps_witness:
  "0 < N undammed_env
   \<and> [-1 :: real] ! 0 < Vapprox undammed_env 0 ! 0
   \<and> Qvals undammed_env [-1] ! 0 = Qapprox undammed_env 0 ! 0
   \<and> Vapprox undammed_env 0 ! 99 < [201 :: real] ! 0
   \<and> Qvals undammed_env [201] ! 0 = Qapprox undammed_env 0 ! 99"
proof -
  have n: "0 < N undammed_env" by (simp add: undammed_env_def)
  have "0 \<le> Vapprox undammed_env 0 ! 0" by (rule Vapprox_nonneg) simp
  then have lo: "[-1 :: real] ! 0 < Vapprox undammed_env 0 ! 0" by simp
  have "Vapprox undammed_env 0 ! 99
          = w undammed_env ! 0 * l undammed_env ! 0 * (linspace 0 20 100 ! 99)"
    by (rule Vapprox_friction) (simp_all add: undammed_env_def grid_nth)
  then have "Vapprox undammed_env 0 ! 99 = 200"
    by (simp add: undammed_env_def grid_nth)
  then have hi: "Vapprox undammed_env 0 ! 99 < [201 :: real] ! 0" by simp
  from Qvals_clamps [OF n, of "[-1]"] lo
  have a: "Qvals undammed_env [-1] ! 0 = Qapprox undammed_env 0 ! 0" by blast
  from Qvals_clamps [OF n, of "[201]"] hi
  have b: "Qvals undammed_env [201] ! 0 = Qapprox undammed_env 0 ! 99" by blast
  from n lo hi a b show ?thesis by blast
qed

lemma np_search_eq:
  assumes "Suc j < length arr" and "\<forall>m\<le>j. arr ! m \<le> key" and "key < arr ! Suc j"
  shows "np_search key arr = j"
proof -
  have len: "j < length (tl arr)" using assms(1) by simp
  have "takeWhile (\<lambda>a. a \<le> key) (tl arr) = take j (tl arr)"
  proof (rule takeWhile_eq_take_P_nth)
    fix m assume "m < j" and "m < length (tl arr)"
    then have "tl arr ! m = arr ! Suc m" by (simp add: nth_tl)
    moreover from \<open>m < j\<close> assms(2) have "arr ! Suc m \<le> key" by simp
    ultimately show "tl arr ! m \<le> key" by simp
  next
    assume "j < length (tl arr)"
    then have "tl arr ! j = arr ! Suc j" by (simp add: nth_tl)
    with assms(3) show "\<not> tl arr ! j \<le> key" by simp
  qed
  with len show ?thesis by (simp add: np_search_def)
qed

subsection \<open>The lookup of a stored volume\<close>

text \<open>
  When the stored volume of a height \<open>h\<close> lies between two neighbouring table entries
  that the running maximum has left at the raw storage of their grid heights, the lookup
  finds that cell and returns the chord between its two discharge samples.
\<close>

lemma roundtrip_cell_chord:
  assumes i: "i < N e" and j: "j < 99"
    and tj: "Vapprox e i ! j = Vfun e (linspace 0 20 100 ! j) i"
    and tj1: "Vapprox e i ! Suc j = Vfun e (linspace 0 20 100 ! Suc j) i"
    and lo: "Vfun e (linspace 0 20 100 ! j) i \<le> Vfun e h i"
    and hi: "Vfun e h i < Vfun e (linspace 0 20 100 ! Suc j) i"
    and V: "V ! i = Vfun e h i"
  shows "Qvals e V ! i =
           Qfun Numerical e (linspace 0 20 100 ! j) i
           + (Qfun Numerical e (linspace 0 20 100 ! Suc j) i
              - Qfun Numerical e (linspace 0 20 100 ! j) i)
             * ((Vfun e h i - Vfun e (linspace 0 20 100 ! j) i)
                / (Vfun e (linspace 0 20 100 ! Suc j) i - Vfun e (linspace 0 20 100 ! j) i))"
proof -
  let ?g = "linspace 0 20 100"
  let ?xp = "Vapprox e i"
  let ?fp = "Qapprox e i"
  have fpj: "?fp ! j = Qfun Numerical e (?g ! j) i"
    and fpj1: "?fp ! Suc j = Qfun Numerical e (?g ! Suc j) i"
    using j by (simp_all add: Qapprox_def)
  have below: "?xp ! j \<le> V ! i" using lo by (simp add: tj V)
  have above: "V ! i < ?xp ! Suc j" using hi by (simp add: tj1 V)
  have top: "\<not> V ! i > last ?xp"
  proof -
    have "?xp ! Suc j \<le> ?xp ! 99" using j by (intro Vapprox_mono) simp_all
    with above show ?thesis by (simp add: last_Vapprox)
  qed
  have bot: "\<not> V ! i < hd ?xp"
  proof -
    have "?xp ! 0 \<le> ?xp ! j" using j by (intro Vapprox_mono) simp_all
    with below show ?thesis by (simp add: hd_Vapprox)
  qed
  have srch: "np_search (V ! i) ?xp = j"
  proof (rule np_search_eq)
    show "Suc j < length ?xp" using j by simp
    show "\<forall>m\<le>j. ?xp ! m \<le> V ! i"
    proof (intro allI impI)
      fix m assume "m \<le> j"
      with j have "?xp ! m \<le> ?xp ! j" by (intro Vapprox_mono) simp_all
      with below show "?xp ! m \<le> V ! i" by simp
    qed
    show "V ! i < ?xp ! Suc j" by (rule above)
  qed
  have nl: "j \<noteq> length ?xp - 1" using j by simp
  have "Qvals e V ! i =
          (if ?xp ! j = V ! i then ?fp ! j
           else (?fp ! (j + 1) - ?fp ! j) / (?xp ! (j + 1) - ?xp ! j) * (V ! i - ?xp ! j) + ?fp ! j)"
    using i top bot nl by (simp add: Qvals_nth np_interp_def Let_def srch)
  also have "\<dots> = ?fp ! j + (?fp ! Suc j - ?fp ! j) * ((V ! i - ?xp ! j) / (?xp ! Suc j - ?xp ! j))"
    by simp
  finally show ?thesis by (simp only: fpj fpj1 tj tj1 V)
qed

lemma chord_bound:
  fixes Q0 Q1 q t :: real
  assumes "Q0 \<le> q" and "q \<le> Q1" and "0 \<le> t" and "t \<le> 1"
  shows "\<bar>Q0 + (Q1 - Q0) * t - q\<bar> \<le> Q1 - Q0"
proof -
  from assms have d: "0 \<le> Q1 - Q0" by simp
  from d assms(3) have c0: "0 \<le> (Q1 - Q0) * t" by simp
  from d assms(4) have c1: "(Q1 - Q0) * t \<le> (Q1 - Q0) * 1" by (intro mult_left_mono) simp_all
  from assms(1,2) c0 c1 show ?thesis by (simp add: abs_le_iff)
qed

text \<open>
  Every grid cell below the dispatcher's threshold is such a cell, for a segment with
  positive width, slope and length.
\<close>

lemma friction_cell:
  assumes pos: "0 < w e ! i" "0 < S e ! i" "0 < l e ! i"
    and j: "j < 99"
    and fr: "linspace 0 20 100 ! Suc j < max (hcrit e ! i) (h_l e ! i)"
    and h: "linspace 0 20 100 ! j \<le> h" "h < linspace 0 20 100 ! Suc j"
  shows "Vapprox e i ! j = Vfun e (linspace 0 20 100 ! j) i"
    and "Vapprox e i ! Suc j = Vfun e (linspace 0 20 100 ! Suc j) i"
    and "Vfun e (linspace 0 20 100 ! j) i \<le> Vfun e h i"
    and "Vfun e h i < Vfun e (linspace 0 20 100 ! Suc j) i"
    and "Qfun Numerical e (linspace 0 20 100 ! j) i \<le> Qfun Numerical e h i"
    and "Qfun Numerical e h i \<le> Qfun Numerical e (linspace 0 20 100 ! Suc j) i"
proof -
  let ?g = "linspace 0 20 100"
  let ?c = "w e ! i * l e ! i"
  have c: "0 < ?c" using pos by simp
  have gj: "0 \<le> ?g ! j" using j by (simp add: grid_nonneg)
  have gd: "?g ! j < ?g ! Suc j" using h by simp
  have frj: "?g ! j < max (hcrit e ! i) (h_l e ! i)" using gd fr by simp
  have frh: "h < max (hcrit e ! i) (h_l e ! i)" using h fr by simp
  have Vj: "Vfun e (?g ! j) i = ?c * (?g ! j)"
    using gj frj pos by (rule Vfun_friction)
  have Vj1: "Vfun e (?g ! Suc j) i = ?c * (?g ! Suc j)"
    using gj gd fr pos by (intro Vfun_friction) simp_all
  have Vh: "Vfun e h i = ?c * h"
    using gj h frh pos by (intro Vfun_friction) simp_all
  show "Vapprox e i ! j = Vfun e (?g ! j) i"
    unfolding Vj using j frj pos by (intro Vapprox_friction) simp_all
  show "Vapprox e i ! Suc j = Vfun e (?g ! Suc j) i"
    unfolding Vj1 using j fr pos by (intro Vapprox_friction) simp_all
  show "Vfun e (?g ! j) i \<le> Vfun e h i"
    unfolding Vj Vh using h(1) c by (intro mult_left_mono) simp_all
  show "Vfun e h i < Vfun e (?g ! Suc j) i"
    unfolding Vj1 Vh using h(2) c by (rule mult_strict_left_mono)
  have "Qfric e (?g ! j) i \<le> Qfric e h i"
    using gj h pos by (intro Qfric_mono) simp_all
  then show "Qfun Numerical e (?g ! j) i \<le> Qfun Numerical e h i"
    by (simp only: Qfun_friction [OF frj] Qfun_friction [OF frh])
  have "Qfric e h i \<le> Qfric e (?g ! Suc j) i"
    using gj h pos by (intro Qfric_mono) simp_all
  then show "Qfun Numerical e h i \<le> Qfun Numerical e (?g ! Suc j) i"
    by (simp only: Qfun_friction [OF fr] Qfun_friction [OF frh])
qed

lemma powr_five_thirds_cube:
  fixes x :: real
  assumes "0 < x"
  shows "(x powr (5/3)) ^ 3 = x ^ 5"
proof -
  have "(x powr (5/3)) ^ 3 = (x powr (5/3)) powr 3"
    by (simp add: powr_numeral)
  also have "\<dots> = x powr 5" by (simp add: powr_powr)
  also have "\<dots> = x ^ 5" using assms by (simp add: powr_numeral)
  finally show ?thesis .
qed

lemma powr_five_thirds_lower:
  fixes x c :: real
  assumes "0 < x" and "c ^ 3 \<le> x ^ 5"
  shows "c \<le> x powr (5/3)"
proof -
  from assms have le: "c ^ 3 \<le> (x powr (5/3)) ^ 3" by (simp add: powr_five_thirds_cube)
  show ?thesis
  proof (rule ccontr)
    assume "\<not> c \<le> x powr (5/3)"
    then have "x powr (5/3) < c" by simp
    then have "(x powr (5/3)) ^ 3 < c ^ 3" by (intro power_strict_mono) simp_all
    with le show False by simp
  qed
qed

lemma powr_five_thirds_upper:
  fixes x c :: real
  assumes "0 < x" and "0 \<le> c" and "x ^ 5 \<le> c ^ 3"
  shows "x powr (5/3) \<le> c"
proof -
  from assms have le: "(x powr (5/3)) ^ 3 \<le> c ^ 3" by (simp add: powr_five_thirds_cube)
  show ?thesis
  proof (rule ccontr)
    assume "\<not> x powr (5/3) \<le> c"
    then have "c < x powr (5/3)" by simp
    with assms(2) have "c ^ 3 < (x powr (5/3)) ^ 3" by (intro power_strict_mono) simp_all
    with le show False by simp
  qed
qed

lemma undammed_values:
  "Vfun undammed_env 0 0 = 0" "Vfun undammed_env (10 / 99) 0 = 100 / 99"
  "Vfun undammed_env (20 / 99) 0 = 200 / 99"
  "Qfun Numerical undammed_env 0 0 = 0"
  "Qfun Numerical undammed_env (10 / 99) 0 = 20 * (10 / 99) powr (5 / 3)"
  "Qfun Numerical undammed_env (20 / 99) 0 = 20 * (20 / 99) powr (5 / 3)"
proof -
  have V: "Vfun undammed_env h 0 = w undammed_env ! 0 * l undammed_env ! 0 * h"
    if "0 \<le> h" "h < 100" for h
    using that by (intro Vfun_friction) (simp_all add: undammed_env_def)
  show "Vfun undammed_env 0 0 = 0" "Vfun undammed_env (10 / 99) 0 = 100 / 99"
    "Vfun undammed_env (20 / 99) 0 = 200 / 99"
    by (simp_all add: V) (simp_all add: undammed_env_def)
  show "Qfun Numerical undammed_env 0 0 = 0"
    "Qfun Numerical undammed_env (10 / 99) 0 = 20 * (10 / 99) powr (5 / 3)"
    "Qfun Numerical undammed_env (20 / 99) 0 = 20 * (20 / 99) powr (5 / 3)"
    by (simp_all add: Qfun_def Qfric_def undammed_env_def)
qed

lemma undammed_cell:
  "Vapprox undammed_env 0 ! 0 = Vfun undammed_env (linspace 0 20 100 ! 0) 0"
  "Vapprox undammed_env 0 ! Suc 0 = Vfun undammed_env (linspace 0 20 100 ! Suc 0) 0"
proof -
  have g0: "linspace 0 20 100 ! 0 = 0" and g1: "linspace 0 20 100 ! Suc 0 = 20 / 99"
    by (simp_all add: grid_nth)
  show "Vapprox undammed_env 0 ! 0 = Vfun undammed_env (linspace 0 20 100 ! 0) 0"
    by (rule friction_cell(1) [where h = 0]) (simp_all add: undammed_env_def g0 g1)
  show "Vapprox undammed_env 0 ! Suc 0 = Vfun undammed_env (linspace 0 20 100 ! Suc 0) 0"
    by (rule friction_cell(2) [where h = 0]) (simp_all add: undammed_env_def g0 g1)
qed

lemma undammed_chord:
  "Qvals undammed_env [Vfun undammed_env (10 / 99) 0] ! 0
     = 10 * (20 / 99) powr (5 / 3)"
proof -
  have g0: "linspace 0 20 100 ! 0 = 0" and g1: "linspace 0 20 100 ! Suc 0 = 20 / 99"
    by (simp_all add: grid_nth)
  have "Qvals undammed_env [Vfun undammed_env (10 / 99) 0] ! 0 =
           Qfun Numerical undammed_env (linspace 0 20 100 ! 0) 0
           + (Qfun Numerical undammed_env (linspace 0 20 100 ! Suc 0) 0
              - Qfun Numerical undammed_env (linspace 0 20 100 ! 0) 0)
             * ((Vfun undammed_env (10 / 99) 0 - Vfun undammed_env (linspace 0 20 100 ! 0) 0)
                / (Vfun undammed_env (linspace 0 20 100 ! Suc 0) 0
                   - Vfun undammed_env (linspace 0 20 100 ! 0) 0))"
    by (rule roundtrip_cell_chord)
       (simp_all add: undammed_cell, simp_all add: g0 g1 undammed_values, simp add: undammed_env_def)
  then show ?thesis by (simp add: g0 g1 undammed_values)
qed

text \<open>
  Claim C4, as stated: for every segment and every height \<open>0 < h < 20\<close> the lookup of the
  stored volume \<open>Vfun(h, i)\<close> differs from \<open>Qfun(h, i)\<close> by at most the grid spacing
  \<open>20/99\<close>.  This fails for the undammed example segment half-way into the first grid
  cell: the lookup returns the chord value \<open>10 * (20/99)^(5/3)\<close>, the dispatcher
  \<open>20 * (10/99)^(5/3)\<close>, and the two are more than \<open>20/99\<close> apart.
\<close>

theorem roundtrip_exceeds_spacing:
  "0 < (10 / 99 :: real) \<and> (10 / 99 :: real) < 20
   \<and> \<not> \<bar>Qvals undammed_env [Vfun undammed_env (10 / 99) 0] ! 0
          - Qfun Numerical undammed_env (10 / 99) 0\<bar> \<le> 20 / 99"
proof -
  have lo: "1 / 15 \<le> (20 / 99 :: real) powr (5 / 3)"
    by (rule powr_five_thirds_lower) (simp_all add: power_divide)
  have hi: "(10 / 99 :: real) powr (5 / 3) \<le> 11 / 500"
    by (rule powr_five_thirds_upper) (simp_all add: power_divide)
  have q: "Qfun Numerical undammed_env (10 / 99) 0 = 20 * (10 / 99) powr (5 / 3)"
    by (simp add: Qfun_def Qfric_def undammed_env_def)
  have "20 / 99 < 10 * (1 / 15) - 20 * (11 / 500 :: real)" by simp
  also have "\<dots> \<le> 10 * (20 / 99) powr (5 / 3) - 20 * (10 / 99) powr (5 / 3)"
    using lo hi by simp
  finally have "20 / 99 < \<bar>10 * (20 / 99) powr (5 / 3) - 20 * (10 / 99 :: real) powr (5 / 3)\<bar>"
    by simp
  then show ?thesis by (simp only: undammed_chord q) simp
qed

subsection \<open>A height above a dam, on the plateau of the table\<close>

text \<open>
  For the dammed example segment the discharge drops at the lower edge \<open>1/4\<close> of the dam,
  the raw storage drops with it, and the running maximum keeps the table at the last
  friction value.  The stored volume of the height \<open>3/4\<close> is below that plateau, so the
  lookup lands in the first grid cell, far from the cell of \<open>3/4\<close>: the value it returns
  differs from the discharge at \<open>3/4\<close> by more than the discharge increases across the
  cell \<open>[h_3, h_4]\<close> that holds \<open>3/4\<close>.  The bound of the amended claim below therefore
  needs its hypotheses on the cell.
\<close>

lemma cst_gamma_Numerical: "cst_gamma Numerical = sqrt (98 / 5) * (3 / 100) / sqrt (1 / 20)"
  by (simp add: cst_gamma_def cst_Q_def cst_g_def cst_h_def cst_w_def cst_S_def manning_def
      powr_half_sqrt)

lemma cst_gamma_Numerical_pos: "0 < cst_gamma Numerical"
  by (simp add: cst_gamma_Numerical)

lemma sqrt_leaky_slope: "sqrt (7938 / 625) = 6 * cst_gamma Numerical"
proof (rule real_sqrt_unique)
  have "(sqrt (98 / 5 :: real))\<^sup>2 = 98 / 5" and "(sqrt (1 / 20 :: real))\<^sup>2 = 1 / 20"
    by simp_all
  then show "(6 * cst_gamma Numerical)\<^sup>2 = 7938 / 625"
    by (simp add: cst_gamma_Numerical power_mult_distrib power_divide)
  show "0 \<le> 6 * cst_gamma Numerical" using cst_gamma_Numerical_pos by simp
qed

lemma powr_three_fifths_32: "(1 / 32 :: real) powr (3 / 5) = 1 / 8"
proof -
  have "(1 / 2 :: real) powr 5 = (1 / 2) ^ 5" by (rule powr_numeral) simp
  also have "\<dots> = 1 / 32" by (simp add: power_divide)
  finally have a: "(1 / 2 :: real) powr 5 = 1 / 32" .
  have "(1 / 32 :: real) powr (3 / 5) = ((1 / 2) powr 5) powr (3 / 5)" by (simp only: a)
  also have "\<dots> = (1 / 2 :: real) powr (5 * (3 / 5))" by (rule powr_powr)
  also have "\<dots> = (1 / 2 :: real) powr 3" by simp
  also have "\<dots> = (1 / 2) ^ 3" by (rule powr_numeral) simp
  also have "\<dots> = 1 / 8" by (simp add: power_divide)
  finally show ?thesis .
qed

lemma leaky_Qfun_dam:
  assumes "1 / 4 \<le> h" and "h \<le> 2"
  shows "Qfun Numerical leaky_env h 0 = cst_gamma Numerical * (1 / 4 * h / sqrt (h + 1 / 4))"
  using assms by (simp add: Qfun_def Qdam_def leaky_env_def Let_def max_def)

lemma leaky_values:
  "Qfun Numerical leaky_env (3 / 4) 0 = cst_gamma Numerical * (3 / 16)"
  "Vfun leaky_env (3 / 4) 0 = 1 / 8 + 15625 / 508032"
proof -
  show Q: "Qfun Numerical leaky_env (3 / 4) 0 = cst_gamma Numerical * (3 / 16)"
    by (simp add: leaky_Qfun_dam)
  have "Qfun Numerical leaky_env (3 / 4) 0 / w leaky_env ! 0 / sqrt (S leaky_env ! 0) = 1 / 32"
    using cst_gamma_Numerical_pos by (simp only: Q) (simp add: leaky_env_def sqrt_leaky_slope)
  then have hs: "(Qfun Numerical leaky_env (3 / 4) 0 / w leaky_env ! 0 / sqrt (S leaky_env ! 0))
                   powr (3 / 5) = 1 / 8"
    by (simp only: powr_three_fifths_32)
  show "Vfun leaky_env (3 / 4) 0 = 1 / 8 + 15625 / 508032"
    unfolding Vfun_def Let_def hs
    by (simp add: leaky_env_def cst_beta_def cst_h_def cst_S_def cst_l_def power2_eq_square)
qed

lemma leaky_cell:
  "Vapprox leaky_env 0 ! 0 = Vfun leaky_env (linspace 0 20 100 ! 0) 0"
  "Vapprox leaky_env 0 ! Suc 0 = Vfun leaky_env (linspace 0 20 100 ! Suc 0) 0"
  "Vfun leaky_env (linspace 0 20 100 ! 0) 0 = 0"
  "Vfun leaky_env (linspace 0 20 100 ! Suc 0) 0 = 20 / 99"
  "Qfun Numerical leaky_env (linspace 0 20 100 ! 0) 0 = 0"
  "Qfun Numerical leaky_env (linspace 0 20 100 ! Suc 0) 0
     = 6 * cst_gamma Numerical * (20 / 99) powr (5 / 3)"
proof -
  have g0: "linspace 0 20 100 ! 0 = 0" and g1: "linspace 0 20 100 ! Suc 0 = 20 / 99"
    by (simp_all add: grid_nth)
  show "Vapprox leaky_env 0 ! 0 = Vfun leaky_env (linspace 0 20 100 ! 0) 0"
    by (rule friction_cell(1) [where h = 0]) (simp_all add: leaky_env_def g0 g1)
  show "Vapprox leaky_env 0 ! Suc 0 = Vfun leaky_env (linspace 0 20 100 ! Suc 0) 0"
    by (rule friction_cell(2) [where h = 0]) (simp_all add: leaky_env_def g0 g1)
  have V: "Vfun leaky_env h 0 = w leaky_env ! 0 * l leaky_env ! 0 * h"
    if "0 \<le> h" "h < 1 / 4" for h
    using that by (intro Vfun_friction) (simp_all add: leaky_env_def)
  show "Vfun leaky_env (linspace 0 20 100 ! 0) 0 = 0"
    "Vfun leaky_env (linspace 0 20 100 ! Suc 0) 0 = 20 / 99"
    by (simp_all add: g0 g1 V) (simp_all add: leaky_env_def)
  show "Qfun Numerical leaky_env (linspace 0 20 100 ! 0) 0 = 0"
    "Qfun Numerical leaky_env (linspace 0 20 100 ! Suc 0) 0
       = 6 * cst_gamma Numerical * (20 / 99) powr (5 / 3)"
    by (simp_all add: g0 g1 Qfun_def Qfric_def leaky_env_def sqrt_leaky_slope)
qed

lemma leaky_lookup:
  "Qvals leaky_env [Vfun leaky_env (3 / 4) 0] ! 0
     = 6 * cst_gamma Numerical * (20 / 99) powr (5 / 3)
       * ((1 / 8 + 15625 / 508032) / (20 / 99))"
proof -
  have "Qvals leaky_env [Vfun leaky_env (3 / 4) 0] ! 0 =
           Qfun Numerical leaky_env (linspace 0 20 100 ! 0) 0
           + (Qfun Numerical leaky_env (linspace 0 20 100 ! Suc 0) 0
              - Qfun Numerical leaky_env (linspace 0 20 100 ! 0) 0)
             * ((Vfun leaky_env (3 / 4) 0 - Vfun leaky_env (linspace 0 20 100 ! 0) 0)
                / (Vfun leaky_env (linspace 0 20 100 ! Suc 0) 0
                   - Vfun leaky_env (linspace 0 20 100 ! 0) 0))"
    by (rule roundtrip_cell_chord)
       (simp_all add: leaky_cell(1,2), simp_all add: leaky_cell leaky_values,
        simp add: leaky_env_def)
  then show ?thesis by (simp add: leaky_cell leaky_values)
qed

lemma roundtrip_plateau:
  "linspace 0 20 100 ! 3 \<le> (3 / 4 :: real) \<and> (3 / 4 :: real) < linspace 0 20 100 ! 4
   \<and> Qfun Numerical leaky_env (linspace 0 20 100 ! 4) 0
       - Qfun Numerical leaky_env (linspace 0 20 100 ! 3) 0
     < \<bar>Qvals leaky_env [Vfun leaky_env (3 / 4) 0] ! 0 - Qfun Numerical leaky_env (3 / 4) 0\<bar>"
proof -
  let ?c = "cst_gamma Numerical"
  have c: "0 < ?c" by (rule cst_gamma_Numerical_pos)
  have g3: "linspace 0 20 100 ! 3 = 20 / 33" and g4: "linspace 0 20 100 ! 4 = 80 / 99"
    by (simp_all add: grid_nth)
  have b: "1 / 15 \<le> (20 / 99 :: real) powr (5 / 3)"
    by (rule powr_five_thirds_lower) (simp_all add: power_divide)
  have s4: "1 \<le> sqrt (80 / 99 + 1 / 4 :: real)" by simp
  have s3: "sqrt (20 / 33 + 1 / 4 :: real) \<le> 1" by simp
  have s3pos: "0 < sqrt (20 / 33 + 1 / 4 :: real)" by simp
  define a4 :: real where "a4 = 1 / 4 * (80 / 99) / sqrt (80 / 99 + 1 / 4)"
  define a3 :: real where "a3 = 1 / 4 * (20 / 33) / sqrt (20 / 33 + 1 / 4)"
  have "a4 \<le> 1 / 4 * (80 / 99) / 1"
    unfolding a4_def using s4 by (intro divide_left_mono) simp_all
  then have a4: "a4 \<le> 20 / 99" by simp
  have "1 / 4 * (20 / 33) / 1 \<le> a3"
    unfolding a3_def using s3 s3pos by (intro divide_left_mono) simp_all
  then have a3: "5 / 33 \<le> a3" by simp
  have "Qfun Numerical leaky_env (80 / 99) 0 = ?c * a4"
    unfolding a4_def by (rule leaky_Qfun_dam) simp_all
  moreover have "?c * a4 \<le> ?c * (20 / 99)"
    using a4 c by (intro mult_left_mono) simp_all
  ultimately have q4: "Qfun Numerical leaky_env (80 / 99) 0 \<le> ?c * (20 / 99)" by simp
  have "Qfun Numerical leaky_env (20 / 33) 0 = ?c * a3"
    unfolding a3_def by (rule leaky_Qfun_dam) simp_all
  moreover have "?c * (5 / 33) \<le> ?c * a3"
    using a3 c by (intro mult_left_mono) simp_all
  ultimately have q3: "?c * (5 / 33) \<le> Qfun Numerical leaky_env (20 / 33) 0" by simp
  have "6 * (1 / 15) * ((1 / 8 + 15625 / 508032) / (20 / 99))
          \<le> 6 * (20 / 99 :: real) powr (5 / 3) * ((1 / 8 + 15625 / 508032) / (20 / 99))"
    using b by (intro mult_right_mono mult_left_mono) simp_all
  then have "3 / 10 \<le> 6 * (20 / 99 :: real) powr (5 / 3) * ((1 / 8 + 15625 / 508032) / (20 / 99))"
    by simp
  then have "?c * (3 / 10)
          \<le> ?c * (6 * (20 / 99 :: real) powr (5 / 3) * ((1 / 8 + 15625 / 508032) / (20 / 99)))"
    using c by (intro mult_left_mono) simp_all
  then have lk: "?c * (3 / 10) \<le> Qvals leaky_env [Vfun leaky_env (3 / 4) 0] ! 0"
    by (simp add: leaky_lookup mult.assoc)
  have "?c * (20 / 99) - ?c * (5 / 33) < ?c * (3 / 10) - ?c * (3 / 16)"
    using c by (simp flip: right_diff_distrib)
  with q3 q4 lk
  have "Qfun Numerical leaky_env (80 / 99) 0 - Qfun Numerical leaky_env (20 / 33) 0
        < Qvals leaky_env [Vfun leaky_env (3 / 4) 0] ! 0 - Qfun Numerical leaky_env (3 / 4) 0"
    by (simp add: leaky_values)
  then show ?thesis by (simp add: g3 g4)
qed

text \<open>
  Claim C4, amended.  Let \<open>h\<close> lie in a grid cell \<open>[h_j, h_(j+1))\<close> whose two table entries
  are the raw storage at \<open>h_j\<close> and \<open>h_(j+1)\<close> (the running maximum has not raised them),
  with the storage of \<open>h\<close> between them and the discharge of \<open>h\<close> between the
  discharges at \<open>h_j\<close> and \<open>h_(j+1)\<close>.  Then the lookup of \<open>Vfun(h, i)\<close> is the linear
  interpolation between \<open>Qfun(h_j, i)\<close> and \<open>Qfun(h_(j+1), i)\<close> at that storage, and it
  differs from \<open>Qfun(h, i)\<close> by at most the increase of the discharge across the cell,
  \<open>Qfun(h_(j+1), i) - Qfun(h_j, i)\<close>.  The cells below the dispatcher's threshold are
  such cells (lemma \<open>friction_cell\<close>); so are the cells of the dam regime on which storage
  and discharge increase and which lie past the plateau of the table.
\<close>

theorem roundtrip_monotone_cell:
  assumes "i < N e" and "j < 99"
    and "linspace 0 20 100 ! j \<le> h" and "h < linspace 0 20 100 ! Suc j"
    and "Vapprox e i ! j = Vfun e (linspace 0 20 100 ! j) i"
    and "Vapprox e i ! Suc j = Vfun e (linspace 0 20 100 ! Suc j) i"
    and "Vfun e (linspace 0 20 100 ! j) i \<le> Vfun e h i"
    and "Vfun e h i < Vfun e (linspace 0 20 100 ! Suc j) i"
    and "Qfun Numerical e (linspace 0 20 100 ! j) i \<le> Qfun Numerical e h i"
    and "Qfun Numerical e h i \<le> Qfun Numerical e (linspace 0 20 100 ! Suc j) i"
    and "V ! i = Vfun e h i"
  shows "Qvals e V ! i =
           Qfun Numerical e (linspace 0 20 100 ! j) i
           + (Qfun Numerical e (linspace 0 20 100 ! Suc j) i
              - Qfun Numerical e (linspace 0 20 100 ! j) i)
             * ((Vfun e h i - Vfun e (linspace 0 20 100 ! j) i)
                / (Vfun e (linspace 0 20 100 ! Suc j) i - Vfun e (linspace 0 20 100 ! j) i))
       \<and> \<bar>Qvals e V ! i - Qfun Numerical e h i\<bar>
           \<le> Qfun Numerical e (linspace 0 20 100 ! Suc j) i
              - Qfun Numerical e (linspace 0 20 100 ! j) i"
proof -
  let ?g = "linspace 0 20 100"
  define t where "t = (Vfun e h i - Vfun e (?g ! j) i) / (Vfun e (?g ! Suc j) i - Vfun e (?g ! j) i)"
  have chord: "Qvals e V ! i =
      Qfun Numerical e (?g ! j) i
      + (Qfun Numerical e (?g ! Suc j) i - Qfun Numerical e (?g ! j) i) * t"
    unfolding t_def using assms(1,2,5,6,7,8,11) by (rule roundtrip_cell_chord)
  have t: "0 \<le> t" "t \<le> 1"
    using assms(7,8) by (simp_all add: t_def)
  have "\<bar>Qfun Numerical e (?g ! j) i
          + (Qfun Numerical e (?g ! Suc j) i - Qfun Numerical e (?g ! j) i) * t
          - Qfun Numerical e h i\<bar>
        \<le> Qfun Numerical e (?g ! Suc j) i - Qfun Numerical e (?g ! j) i"
    using assms(9,10) t by (rule chord_bound)
  with chord show ?thesis by (simp add: t_def)
qed

theorem roundtrip_monotone_cell_witness:
  "0 < N undammed_env \<and> (0 :: nat) < 99
   \<and> linspace 0 20 100 ! 0 \<le> (10 / 99 :: real) \<and> (10 / 99 :: real) < linspace 0 20 100 ! Suc 0
   \<and> Vapprox undammed_env 0 ! 0 = Vfun undammed_env (linspace 0 20 100 ! 0) 0
   \<and> Vapprox undammed_env 0 ! Suc 0 = Vfun undammed_env (linspace 0 20 100 ! Suc 0) 0
   \<and> Vfun undammed_env (linspace 0 20 100 ! 0) 0 \<le> Vfun undammed_env (10 / 99) 0
   \<and> Vfun undammed_env (10 / 99) 0 < Vfun undammed_env (linspace 0 20 100 ! Suc 0) 0
   \<and> Qfun Numerical undammed_env (linspace 0 20 100 ! 0) 0
        \<le> Qfun Numerical undammed_env (10 / 99) 0
   \<and> Qfun Numerical undammed_env (10 / 99) 0
        \<le> Qfun Numerical undammed_env (linspace 0 20 100 ! Suc 0) 0
   \<and> Vfun undammed_env (10 / 99) 0 = 100 / 99
   \<and> Qvals undammed_env [Vfun undammed_env (10 / 99) 0] ! 0
        = Qfun Numerical undammed_env (linspace 0 20 100 ! 0) 0
          + (Qfun Numerical undammed_env (linspace 0 20 100 ! Suc 0) 0
             - Qfun Numerical undammed_env (linspace 0 20 100 ! 0) 0)
            * ((Vfun undammed_env (10 / 99) 0 - Vfun undammed_env (linspace 0 20 100 ! 0) 0)
               / (Vfun undammed_env (linspace 0 20 100 ! Suc 0) 0
                  - Vfun undammed_env (linspace 0 20 100 ! 0) 0))
   \<and> \<bar>Qvals undammed_env [Vfun undammed_env (10 / 99) 0] ! 0
        - Qfun Numerical undammed_env (10 / 99) 0\<bar>
        \<le> Qfun Numerical undammed_env (linspace 0 20 100 ! Suc 0) 0
           - Qfun Numerical undammed_env (linspace 0 20 100 ! 0) 0"
proof -
  have g0: "linspace 0 20 100 ! 0 = 0" and g1: "linspace 0 20 100 ! Suc 0 = 20 / 99"
    by (simp_all add: grid_nth)
  have 1: "0 < N undammed_env" by (simp add: undammed_env_def)
  have 2: "(0 :: nat) < 99" by simp
  have 3: "linspace 0 20 100 ! 0 \<le> (10 / 99 :: real)"
    and 4: "(10 / 99 :: real) < linspace 0 20 100 ! Suc 0"
    by (simp_all add: g0 g1)
  have pos: "0 < w undammed_env ! 0" "0 < S undammed_env ! 0" "0 < l undammed_env ! 0"
    by (simp_all add: undammed_env_def)
  have fr: "linspace 0 20 100 ! Suc 0 < max (hcrit undammed_env ! 0) (h_l undammed_env ! 0)"
    by (simp add: g1 undammed_env_def)
  note cell = friction_cell [OF pos 2 fr 3 4]
  have 11: "[Vfun undammed_env (10 / 99) 0] ! 0 = Vfun undammed_env (10 / 99) 0" by simp
  note r = roundtrip_monotone_cell [OF 1 2 3 4 cell 11]
  have v: "Vfun undammed_env (10 / 99) 0 = 100 / 99" by (rule undammed_values)
  from 1 2 3 4 cell v r show ?thesis by blast
qed

section \<open>Negative state components\<close>



section \<open>Continuity of the dispatched discharge at the critical height\<close>

text \<open>
  In the numerical notebook the root function is the difference of the two functions the
  dispatcher switches between, so a residual below the tolerance is the continuity
  statement itself.
\<close>

lemma numerical_continuity:
  "\<bar>root_fun Numerical e i hc\<bar> < tol \<Longrightarrow> \<bar>Qfric e hc i - Qdam Numerical e hc i\<bar> < tol"
  by (simp add: root_fun_def)

text \<open>
  In the hysteresis notebook the root function uses \<^verbatim>\<open>Qdam1\<close> and the dispatcher
  \<^verbatim>\<open>Qdam\<close>; the two differ by the weir term, which is positive above \<open>h_u\<close>.
\<close>

lemma Qdam1_minus_Qdam:
  "Qdam1 e h i - Qdam Hysteresis e h i
     = cst_gamma Hysteresis * w e ! i * (4 / 15 * (max 0 (h - h_u e ! i)) powr (3/2))"
  by (simp add: Qdam1_def Qdam_def Let_def algebra_simps)

lemma cst_gamma_Hysteresis: "cst_gamma Hysteresis = sqrt (98 / 5) * (7 / 200) / sqrt (1 / 20)"
  by (simp add: cst_gamma_def cst_Q_def cst_g_def cst_h_def cst_w_def cst_S_def manning_def
      powr_half_sqrt)

lemma cst_gamma_Hysteresis_gt: "3 / 5 < cst_gamma Hysteresis"
proof -
  have a: "22 / 5 < sqrt (98 / 5 :: real)"
    by (rule real_less_rsqrt) (simp add: power2_eq_square)
  have b: "sqrt (1 / 20 :: real) < 28 / 125"
    by (rule real_less_lsqrt) (simp_all add: power2_eq_square)
  have c: "0 < sqrt (1 / 20 :: real)" by simp
  have "3 / 5 * sqrt (1 / 20 :: real) < 3 / 5 * (28 / 125)"
    using b by simp
  also have "\<dots> < 22 / 5 * (7 / 200)" by simp
  also have "\<dots> < sqrt (98 / 5) * (7 / 200)" using a by simp
  finally have "3 / 5 * sqrt (1 / 20 :: real) < sqrt (98 / 5) * (7 / 200)" .
  with c have "3 / 5 < sqrt (98 / 5) * (7 / 200) / sqrt (1 / 20 :: real)"
    by (simp add: pos_less_divide_eq)
  then show ?thesis by (simp only: cst_gamma_Hysteresis)
qed

lemma sqrt_25_16: "sqrt (25 / 16 :: real) = 5 / 4"
  by (rule real_sqrt_unique) (simp_all add: power2_eq_square)

lemma quarter_powr_three_halves: "(1 / 4 :: real) powr (3 / 2) = 1 / 8"
proof -
  have "(1 / 4 :: real) powr (3 / 2) = (1 / 4) powr (1 + 1 / 2)" by simp
  also have "\<dots> = (1 / 4) powr 1 * (1 / 4) powr (1 / 2)" by (rule powr_add)
  also have "(1 / 4 :: real) powr (1 / 2) = sqrt (1 / 4)" by (simp add: powr_half_sqrt)
  also have "sqrt (1 / 4 :: real) = 1 / 2"
    by (rule real_sqrt_unique) (simp_all add: power2_eq_square)
  finally show ?thesis by simp
qed

lemma Qfric_dammed: "Qfric dammed_env 1 0 = cst_gamma Hysteresis * (173 / 240)"
  using cst_gamma_Hysteresis_gt by (simp add: Qfric_def dammed_env_def)

lemma Qfric1_dammed: "Qfric1 dammed_env 1 0 = cst_gamma Hysteresis * (173 / 240)"
  using cst_gamma_Hysteresis_gt by (simp add: Qfric1_def dammed_env_def)

lemma Qdam1_dammed: "Qdam1 dammed_env 1 0 = cst_gamma Hysteresis * (173 / 240)"
proof -
  show ?thesis
    by (simp add: Qdam1_def dammed_env_def Let_def sqrt_25_16 quarter_powr_three_halves)
qed

lemma Qdam_dammed: "Qdam Hysteresis dammed_env 1 0 = cst_gamma Hysteresis * (165 / 240)"
proof -
  show ?thesis
    by (simp add: Qdam_def dammed_env_def Let_def sqrt_25_16 quarter_powr_three_halves)
qed

text \<open>
  Claim C1 asks that, wherever the root search converged, the friction value and the dam
  value the dispatcher uses agree at \<open>hcrit\<close> to within the solver tolerance, in both
  notebooks.  For the dammed example segment of the hysteresis notebook the root
  function vanishes exactly at \<open>hcrit = 1\<close>, the dispatcher takes the dam branch there, and
  the friction and dam values differ by \<open>cst_gamma / 30\<close>, more than \<open>1/50\<close>.
\<close>

theorem hysteresis_hcrit_gap:
  "root_fun Hysteresis dammed_env 0 (hcrit dammed_env ! 0) = 0
   \<and> Qfric dammed_env (hcrit dammed_env ! 0) 0
       - Qdam Hysteresis dammed_env (hcrit dammed_env ! 0) 0 = cst_gamma Hysteresis / 30
   \<and> Qfun Hysteresis dammed_env (hcrit dammed_env ! 0) 0
       = Qdam Hysteresis dammed_env (hcrit dammed_env ! 0) 0
   \<and> 1 / 50 < cst_gamma Hysteresis / 30"
proof -
  have hc: "hcrit dammed_env ! 0 = 1" by (simp add: dammed_env_def)
  have "root_fun Hysteresis dammed_env 0 1 = 0"
    by (simp add: root_fun_def Qfric1_dammed Qdam1_dammed)
  moreover have "Qfric dammed_env 1 0 - Qdam Hysteresis dammed_env 1 0 = cst_gamma Hysteresis / 30"
    by (simp add: Qfric_dammed Qdam_dammed)
  moreover have "Qfun Hysteresis dammed_env 1 0 = Qdam Hysteresis dammed_env 1 0"
    by (simp add: Qfun_def dammed_env_def)
  moreover have "1 / 50 < cst_gamma Hysteresis / 30"
    using cst_gamma_Hysteresis_gt by simp
  ultimately show ?thesis by (simp only: hc) 
qed

section \<open>Failure of the root search\<close>

text \<open>
  Claim C7, as stated: when the root search for a segment does not converge, the
  construction of \<open>hcrit\<close> fails with the index of that segment.  With a solver that
  reports failure the construction still returns the list of critical heights, holding
  the unconverged iterate.
\<close>

theorem find_hcrit_stalled:
  "\<not> root_success (stalled_root (root_fun Numerical dammed_env 0) (h_u dammed_env ! 0))
   \<and> find_hcrit stalled_root Numerical dammed_env = Inr [3 / 4]"
  by (simp add: find_hcrit_def stalled_root_def dammed_env_def)

text \<open>
  Claim C7, amended.  The construction of \<open>hcrit\<close> never fails and does not depend on the
  solver's success flag: for every segment it stores the first component of whatever the
  root search, seeded at \<open>h_u\<close>, returned.
\<close>

theorem find_hcrit_unchecked:
  "find_hcrit scipy_root v e
     = find_hcrit (\<lambda>f x0. (scipy_root f x0)\<lparr>root_success := b\<rparr>) v e
   \<and> (\<exists>hc. find_hcrit scipy_root v e = Inr hc \<and> length hc = N e
        \<and> (\<forall>i<N e. hc ! i = root_x (scipy_root (root_fun v e i) (h_u e ! i))))"
  by (simp add: find_hcrit_def)

theorem find_hcrit_unchecked_witness:
  "0 < N dammed_env
   \<and> (\<exists>hc. find_hcrit (\<lambda>f x0. \<lparr>root_x = 1, root_success = True\<rparr>) Hysteresis dammed_env = Inr hc
        \<and> length hc = N dammed_env \<and> hc ! 0 = 1)"
proof -
  have n: "0 < N dammed_env" by (simp add: dammed_env_def)
  from find_hcrit_unchecked [of "\<lambda>f x0. \<lparr>root_x = 1, root_success = True\<rparr>" Hysteresis dammed_env True]
  obtain hc where "find_hcrit (\<lambda>f x0. \<lparr>root_x = 1, root_success = True\<rparr>) Hysteresis dammed_env = Inr hc"
    and "length hc = N dammed_env"
    and "\<forall>i<N dammed_env. hc ! i = root_x ((\<lambda>f x0. \<lparr>root_x = 1, root_success = True\<rparr>) (root_fun Hysteresis dammed_env i) (h_u dammed_env ! i))"
    by blast
  with n show ?thesis by simp
qed

section \<open>Integrator driver\<close>

text \<open>
  Claim C2 asks for an implicit, stiff-suited method in the full run of the hysteresis
  model and the explicit order-2/3 Runge-Kutta pair in the full run of the quasi-steady
  model.  Both notebooks pass \<^verbatim>\<open>method='RK23'\<close>: the hysteresis full run uses the explicit
  pair too.
\<close>

theorem full_run_methods:
  "ivp_meth (full_call Hysteresis e initial) = RK23
   \<and> \<not> stiff_method (ivp_meth (full_call Hysteresis e initial))
   \<and> ivp_meth (full_call Numerical e initial) = RK23"
  by (simp add: full_call_def)

lemma rainfun_0: "rainfun e 0 = rainvals e ! 0"
  by (simp add: rainfun_def py_mod_def py_int_def)

lemma inflow_0: "inflow v e 0 = map (\<lambda>r. r / cst_Q v) (rainvals e ! 0)"
  by (simp add: inflow_def rainfun_0)

text \<open>
  Claim C6 asks that in both notebooks the warm-up starts from the all-zero state, runs
  over \<open>(0, 3600 / cst_t)\<close> with the forcing of \<open>t = 0\<close> held constant, and hands its last
  state unchanged to the full run.  The numerical notebook does so: its warm-up
  right-hand side is the same at every time and uses the first row of the rainfall
  table, and the full run starts from the last state of the warm-up solution.  The
  hysteresis notebook sets up the same calls, but its right-hand side raises
  \<^verbatim>\<open>NameError\<close> at the first evaluation, so the warm-up has no last state and the driver
  raises before the full run.
\<close>

theorem warmup_protocol:
  "y0 (warmup_call Numerical e) = replicate (N e) 0
   \<and> t_span (warmup_call Numerical e) = (0, 3600 / cst_t Numerical)
   \<and> rhs (warmup_call Numerical e) t X =
       Inr (net_balance e (Qvals e X) (map (\<lambda>r. r / cst_Q Numerical) (rainvals e ! 0)))
   \<and> y0 (full_call Numerical e initial) = initial
   \<and> run_model solve_ivp Numerical e =
       (case solve_ivp (warmup_call Numerical e) of
          Inl err \<Rightarrow> Inl err
        | Inr sol \<Rightarrow> solve_ivp (full_call Numerical e (last sol)))
   \<and> y0 (warmup_call Hysteresis e) = replicate (2 * N e) 0
   \<and> t_span (warmup_call Hysteresis e) = (0, 3600 / cst_t Hysteresis)
   \<and> rhs (warmup_call Hysteresis e) t X = Inl (NameError ''cst_lambda'')
   \<and> run_model solve_ivp Hysteresis e = Inl (NameError ''cst_lambda'')"
  by (simp add: warmup_call_def full_call_def run_model_def call_solve_ivp_def derivative2_def
      rhs_full_def derivative_def derivative_hyst_def fun_hyst_def jit_Vfun_def inflow_0 Let_def
      split: sum.splits)

section \<open>Mass balance of the network operator\<close>

lemma sum_list_upt: "sum_list (map f [0..<n]) = (\<Sum>j<n. f j)"
  by (simp add: interv_sum_list_conv_sum_set_nat atLeast0LessThan)

lemma build_Adj_nth:
  "i < length terrain \<Longrightarrow> j < length terrain \<Longrightarrow>
   build_Adj terrain ! i ! j = (if snd (terrain ! i) = fst (terrain ! j) then 1 else 0)"
  by (simp add: build_Adj_def)

lemma AdjT_dot_nth:
  "j < N e \<Longrightarrow> AdjT_dot e Q ! j = (\<Sum>i<N e. Adj e ! i ! j * Q ! i)"
  by (simp add: AdjT_dot_def sum_list_upt)

lemma sum_list_net_balance:
  "sum_list (net_balance e Q q) =
     (\<Sum>i<N e. Q ! i * (\<Sum>j<N e. Adj e ! i ! j)) - (\<Sum>i<N e. Q ! i) + (\<Sum>j<N e. q ! j)"
proof -
  have "sum_list (net_balance e Q q) = (\<Sum>j<N e. AdjT_dot e Q ! j - Q ! j + q ! j)"
    by (simp add: net_balance_def sum_list_upt)
  also have "\<dots> = (\<Sum>j<N e. (\<Sum>i<N e. Adj e ! i ! j * Q ! i) - Q ! j + q ! j)"
    by (rule sum.cong) (simp_all add: AdjT_dot_nth)
  also have "\<dots> = (\<Sum>j<N e. \<Sum>i<N e. Adj e ! i ! j * Q ! i) - (\<Sum>j<N e. Q ! j) + (\<Sum>j<N e. q ! j)"
    by (simp add: sum.distrib sum_subtractf)
  also have "(\<Sum>j<N e. \<Sum>i<N e. Adj e ! i ! j * Q ! i) = (\<Sum>i<N e. \<Sum>j<N e. Adj e ! i ! j * Q ! i)"
    by (rule sum.swap)
  also have "\<dots> = (\<Sum>i<N e. Q ! i * (\<Sum>j<N e. Adj e ! i ! j))"
    by (simp add: sum_distrib_left mult.commute)
  finally show ?thesis .
qed

lemma row_sum_build_Adj:
  assumes A: "Adj e = build_Adj terrain" and n: "N e = length terrain"
    and one: "card {j. j < N e \<and> Adj e ! i ! j \<noteq> 0} \<le> 1" and i: "i < N e"
    and out: "out = (\<forall>j<N e. Adj e ! i ! j = 0)"
  shows "(\<Sum>j<N e. Adj e ! i ! j) = (if out then 0 else 1)"
proof -
  let ?Z = "{j. j < N e \<and> Adj e ! i ! j \<noteq> 0}"
  have fin: "finite ?Z" by simp
  have val: "Adj e ! i ! j = (if Adj e ! i ! j \<noteq> 0 then 1 else 0)" if "j < N e" for j
    using that i A n by (simp add: build_Adj_nth)
  have "(\<Sum>j<N e. Adj e ! i ! j) = (\<Sum>j<N e. if Adj e ! i ! j \<noteq> 0 then 1 else 0)"
    by (rule sum.cong) (use val in auto)
  also have "\<dots> = (\<Sum>j\<in>{..<N e} \<inter> {j. Adj e ! i ! j \<noteq> 0}. 1)"
    by (simp add: sum.If_cases)
  also have "{..<N e} \<inter> {j. Adj e ! i ! j \<noteq> 0} = ?Z" by auto
  finally have eq: "(\<Sum>j<N e. Adj e ! i ! j) = real (card ?Z)" by simp
  show ?thesis
  proof (cases out)
    case True
    with out have "?Z = {}" by auto
    with eq True show ?thesis by simp
  next
    case False
    with out have "?Z \<noteq> {}" by auto
    with fin have "0 < card ?Z" by (simp only: card_gt_0_iff) simp
    with one have "card ?Z = 1" by linarith
    with eq False show ?thesis by simp
  qed
qed

lemma net_balance_outlets:
  assumes A: "Adj e = build_Adj terrain" and n: "N e = length terrain"
    and one: "\<forall>i<N e. card {j. j < N e \<and> Adj e ! i ! j \<noteq> 0} \<le> 1"
  shows "sum_list (net_balance e Q q) =
           - (\<Sum>i | i < N e \<and> (\<forall>j<N e. Adj e ! i ! j = 0). Q ! i) + (\<Sum>j<N e. q ! j)"
proof -
  define out where "out i = (\<forall>j<N e. Adj e ! i ! j = 0)" for i
  have "(\<Sum>i<N e. Q ! i * (\<Sum>j<N e. Adj e ! i ! j)) - (\<Sum>i<N e. Q ! i)
        = (\<Sum>i<N e. Q ! i * (\<Sum>j<N e. Adj e ! i ! j) - Q ! i)"
    by (simp add: sum_subtractf)
  also have "\<dots> = (\<Sum>i<N e. if out i then - (Q ! i) else 0)"
  proof (rule sum.cong)
    fix i assume "i \<in> {..<N e}"
    then have i: "i < N e" by simp
    with one have "card {j. j < N e \<and> Adj e ! i ! j \<noteq> 0} \<le> 1" by simp
    from row_sum_build_Adj [OF A n this i out_def]
    show "Q ! i * (\<Sum>j<N e. Adj e ! i ! j) - Q ! i = (if out i then - (Q ! i) else 0)"
      by simp
  qed simp
  also have "\<dots> = (\<Sum>i\<in>{..<N e} \<inter> {i. out i}. - (Q ! i))"
    by (simp add: sum.If_cases)
  also have "{..<N e} \<inter> {i. out i} = {i. i < N e \<and> out i}" by auto
  also have "(\<Sum>i\<in>{i. i < N e \<and> out i}. - (Q ! i)) = - (\<Sum>i | i < N e \<and> out i. Q ! i)"
    by (simp add: sum_negf)
  finally show ?thesis unfolding out_def by (simp add: sum_list_net_balance)
qed

lemma chain_Adj: "Adj chain_env = [[0, 1], [0, 0]]"
  by (simp add: chain_env_def build_Adj_def upt_rec)

text \<open>
  Claim C10.  When every row of the adjacency matrix has at most one nonzero entry, the
  components of \<open>Adj\<^sup>T Q - Q + q\<close>, the expression of both right-hand sides, sum to the
  total inflow minus the discharge of the outlet segments (the segments whose row of
  \<open>Adj\<close> is zero), for every discharge vector \<open>Q\<close>.  So do the components of the
  quasi-steady right-hand side: with zero inflow the total stored volume changes only by
  the outlet discharge.
\<close>

theorem net_balance_conserves:
  assumes "Adj e = build_Adj terrain" and "N e = length terrain"
    and "\<forall>i<N e. card {j. j < N e \<and> Adj e ! i ! j \<noteq> 0} \<le> 1"
  shows "sum_list (net_balance e Q q) =
           - (\<Sum>i | i < N e \<and> (\<forall>j<N e. Adj e ! i ! j = 0). Q ! i) + (\<Sum>j<N e. q ! j)
       \<and> sum_list (derivative e t V) =
           - (\<Sum>i | i < N e \<and> (\<forall>j<N e. Adj e ! i ! j = 0). Qvals e V ! i)
           + (\<Sum>j<N e. inflow Numerical e t ! j)"
proof -
  note nb = net_balance_outlets [OF assms]
  have a: "sum_list (net_balance e Q q) =
           - (\<Sum>i | i < N e \<and> (\<forall>j<N e. Adj e ! i ! j = 0). Q ! i) + (\<Sum>j<N e. q ! j)"
    by (rule nb)
  have b: "sum_list (derivative e t V) =
           - (\<Sum>i | i < N e \<and> (\<forall>j<N e. Adj e ! i ! j = 0). Qvals e V ! i)
           + (\<Sum>j<N e. inflow Numerical e t ! j)"
    by (simp add: derivative_def Let_def nb)
  from a b show ?thesis by blast
qed

theorem net_balance_conserves_witness:
  "Adj chain_env = build_Adj [(1, 2), (2, 3)] \<and> N chain_env = length [(1 :: nat, 2 :: nat), (2, 3)]
   \<and> card {j. j < N chain_env \<and> Adj chain_env ! 0 ! j \<noteq> 0} \<le> 1
   \<and> card {j. j < N chain_env \<and> Adj chain_env ! 1 ! j \<noteq> 0} \<le> 1
   \<and> sum_list (net_balance chain_env [3, 5] [0, 0]) =
       - (\<Sum>i | i < N chain_env \<and> (\<forall>j<N chain_env. Adj chain_env ! i ! j = 0). [3, 5] ! i)
       + (\<Sum>j<N chain_env. [0, 0] ! j)
   \<and> sum_list (net_balance chain_env [3, 5] [0, 0]) = - 5"
proof -
  have a: "Adj chain_env = build_Adj [(1, 2), (2, 3)]" by (simp add: chain_env_def)
  have n: "N chain_env = length [(1 :: nat, 2 :: nat), (2, 3)]" by (simp add: chain_env_def)
  have n2: "N chain_env = 2" by (simp add: chain_env_def)
  have r0: "{j. j < 2 \<and> [[0, 1], [0, 0 :: real]] ! 0 ! j \<noteq> 0} = {1}"
    by (auto simp: less_2_cases_iff)
  have "[0, 0 :: real] ! j = 0" if "j < 2" for j
    using that by (cases j) simp_all
  then have r1: "{j. j < 2 \<and> [[0, 1], [0, 0 :: real]] ! 1 ! j \<noteq> 0} = {}"
    by simp
  have r0': "{j. j < N chain_env \<and> Adj chain_env ! 0 ! j \<noteq> 0} = {1}"
    unfolding n2 chain_Adj by (rule r0)
  have r1': "{j. j < N chain_env \<and> Adj chain_env ! 1 ! j \<noteq> 0} = {}"
    unfolding n2 chain_Adj by (rule r1)
  have c: "\<forall>i<N chain_env. card {j. j < N chain_env \<and> Adj chain_env ! i ! j \<noteq> 0} \<le> 1"
  proof (intro allI impI)
    fix i assume "i < N chain_env"
    then have "i = 0 \<or> i = 1" unfolding n2 by arith
    then show "card {j. j < N chain_env \<and> Adj chain_env ! i ! j \<noteq> 0} \<le> 1"
    proof
      assume "i = 0"
      then show ?thesis by (simp only: r0') simp
    next
      assume "i = 1"
      then show ?thesis by (simp only: r1') simp
    qed
  qed
  have v: "sum_list (net_balance chain_env [3, 5] [0, 0]) = - 5"
    by (simp add: net_balance_def AdjT_dot_def n2 chain_Adj upt_rec)
  have c0: "card {j. j < N chain_env \<and> Adj chain_env ! 0 ! j \<noteq> 0} \<le> 1"
    by (simp only: r0') simp
  have c1: "card {j. j < N chain_env \<and> Adj chain_env ! 1 ! j \<noteq> 0} \<le> 1"
    by (simp only: r1') simp
  from net_balance_conserves [OF a n c, of "[3, 5]" "[0, 0]", THEN conjunct1] a n c0 c1 v
  show ?thesis by (simp only: simp_thms)
qed

end
